theory Spec2Isabelle
  imports Complex_Main "HOL-Library.Word" "HOL-Library.Multiset"
begin

chapter \<open>The model\<close>

section \<open>Severity policy (determine-severity of the detection service)\<close>

text \<open>
  Python floats are modelled as reals, Python ints as \<open>int\<close>. A box is a list of
  floats; the source only reads a box that has at least four entries
  (\<open>if len(box) >= 4\<close>) and clamps width and height at \<open>0.0\<close>.
\<close>

text \<open>The severity labels \<open>"none"\<close>, \<open>"low"\<close>, \<open>"medium"\<close>, \<open>"high"\<close>.\<close>

datatype severity = none | low | medium | high

definition box_area :: "real list \<Rightarrow> real" where
  "box_area box =
     (if length box \<ge> 4
      then max 0 (box ! 2 - box ! 0) * max 0 (box ! 3 - box ! 1)
      else 0)"

text \<open>The accumulation loop \<open>boxes_area += w * h\<close>, starting from \<open>0.0\<close>.\<close>

fun boxes_area :: "real list list \<Rightarrow> real" where
  "boxes_area [] = 0"
| "boxes_area (box # rest) = box_area box + boxes_area rest"

text \<open>
  \<open>image_size\<close> defaults to \<open>None\<close>; \<open>if image_size and bounding_boxes\<close> holds for a
  pair (a non-empty tuple) and a non-empty list of boxes.
\<close>

definition determine_severity :: "int \<Rightarrow> real list list \<Rightarrow> (int \<times> int) option \<Rightarrow> severity" where
  "determine_severity total_count bounding_boxes image_size =
     (if total_count = 0 then none
      else
        let severity = (if total_count < 5 then low
                        else if total_count < 15 then medium
                        else high)
        in case image_size of
             None \<Rightarrow> severity
           | Some (img_w, img_h) \<Rightarrow>
               if bounding_boxes = [] then severity
               else
                 let img_area = img_w * img_h in
                 if img_area > 0 then
                   let density = boxes_area bounding_boxes / real_of_int img_area in
                   if density > 0.10 \<and> severity \<noteq> high then high
                   else if density > 0.05 \<and> severity = low then medium
                   else severity
                 else severity)"

subsection \<open>The policy in the words of the specification\<close>

text \<open>
  The specification speaks of the \<^emph>\<open>union\<close> of the boxes covering a share of a
  reference area. The area of a union of axis-parallel boxes is computed on the grid
  cut by the boxes' own coordinates: a grid cell counts once when some box covers it.
\<close>

definition well_formed :: "real list \<Rightarrow> bool" where
  "well_formed box = (length box \<ge> 4)"

definition cuts :: "real list \<Rightarrow> real list" where
  "cuts cs = sort (remdups cs)"

fun strips :: "real list \<Rightarrow> (real \<times> real) list" where
  "strips (a # b # rest) = (a, b) # strips (b # rest)"
| "strips _ = []"

definition covers :: "real list \<Rightarrow> (real \<times> real) \<Rightarrow> (real \<times> real) \<Rightarrow> bool" where
  "covers box sx sy =
     (box ! 0 \<le> fst sx \<and> snd sx \<le> box ! 2 \<and> box ! 1 \<le> fst sy \<and> snd sy \<le> box ! 3)"

definition union_area :: "real list list \<Rightarrow> real" where
  "union_area boxes =
     (let bs = filter well_formed boxes;
          xs = cuts (concat (map (\<lambda>b. [b ! 0, b ! 2]) bs));
          ys = cuts (concat (map (\<lambda>b. [b ! 1, b ! 3]) bs))
      in sum_list
           (concat (map (\<lambda>sx. map (\<lambda>sy.
              if list_ex (\<lambda>b. covers b sx sy) bs
              then (snd sx - fst sx) * (snd sy - fst sy) else 0) (strips ys)) (strips xs))))"

text \<open>
  Section 4.2 of the specification: \<open>none\<close> for zero objects, else the level of the
  count, raised to \<open>high\<close> when the union of the boxes covers more than 10% of the
  reference area and from \<open>low\<close> to \<open>medium\<close> when it covers more than 5%.
\<close>

definition count_level :: "int \<Rightarrow> severity" where
  "count_level n = (if n < 5 then low else if n < 15 then medium else high)"

definition severity_policy_spec :: "int \<Rightarrow> real list list \<Rightarrow> real \<Rightarrow> severity" where
  "severity_policy_spec n boxes reference_area =
     (if n = 0 then none
      else if union_area boxes > 0.10 * reference_area then high
      else if union_area boxes > 0.05 * reference_area \<and> count_level n = low then medium
      else count_level n)"

text \<open>The order of the levels, for "never lowers".\<close>

fun rank :: "severity \<Rightarrow> nat" where
  "rank none = 0"
| "rank low = 1"
| "rank medium = 2"
| "rank high = 3"


section \<open>Safety-net non-max suppression (the detection service's nms)\<close>

text \<open>
  A row of the \<open>boxes\<close> array is \<open>(x1, y1, x2, y2)\<close>; \<open>scores\<close> is the array of
  confidences, one for each row. Floats are modelled as reals.
\<close>

type_synonym bbox = "real \<times> real \<times> real \<times> real"

definition area :: "bbox \<Rightarrow> real" where
  "area b = (case b of (x1, y1, x2, y2) \<Rightarrow> (x2 - x1) * (y2 - y1))"

definition inter :: "bbox \<Rightarrow> bbox \<Rightarrow> real" where
  "inter a b =
     (case a of (ax1, ay1, ax2, ay2) \<Rightarrow> case b of (bx1, by1, bx2, by2) \<Rightarrow>
        max 0 (min ax2 bx2 - max ax1 bx1) * max 0 (min ay2 by2 - max ay1 by1))"

text \<open>
  The test \<open>iou <= iou_thresh\<close> with \<open>iou = inter / (areas[i] + areas[j] - inter + 1e-6)\<close>.
  A zero denominator gives \<open>inf\<close> or \<open>nan\<close> in numpy, and neither is \<open><=\<close> a
  threshold; in HOL \<open>x / 0 = 0\<close>, so the case is written out.
\<close>

definition iou_within :: "real \<Rightarrow> bbox \<Rightarrow> bbox \<Rightarrow> bool" where
  "iou_within iou_thresh a b =
     (let d = area a + area b - inter a b + 1 / 1000000
      in d \<noteq> 0 \<and> inter a b / d \<le> iou_thresh)"

text \<open>
  \<open>scores.argsort()\<close>: the indices in ascending order of score. Ties are put in
  index order here; numpy's default sort leaves their order open, and nothing proved
  below depends on it.
\<close>

definition argsort :: "real list \<Rightarrow> nat list" where
  "argsort scores = sort_key (\<lambda>i. scores ! i) [0..<length scores]"

text \<open>
  The \<open>while order.size > 0\<close> loop: keep the head of \<open>order\<close>, stop when it was the
  last, else go on with the later indices whose IoU with it is within the threshold.
\<close>

fun nms_loop :: "bbox list \<Rightarrow> real \<Rightarrow> nat list \<Rightarrow> nat list" where
  "nms_loop boxes iou_thresh [] = []"
| "nms_loop boxes iou_thresh [i] = [i]"
| "nms_loop boxes iou_thresh (i # rest) =
     i # nms_loop boxes iou_thresh
           (filter (\<lambda>j. iou_within iou_thresh (boxes ! i) (boxes ! j)) rest)"

definition nms :: "bbox list \<Rightarrow> real list \<Rightarrow> real \<Rightarrow> nat list" where
  "nms boxes scores iou_thresh =
     (if boxes = [] then [] else nms_loop boxes iou_thresh (rev (argsort scores)))"

section \<open>The persistent store\<close>

text \<open>
  Rows of the tables the pipeline reads and writes, with the columns it uses. A UUID
  is a number, a timestamp is a number of microseconds, a PostGIS point of SRID 4326
  is the pair \<open>(x, y) = (longitude, latitude)\<close>, and a nullable column is an option.
\<close>

type_synonym uuid = nat
type_synonym datetime = int
type_synonym point = "real \<times> real"
type_synonym bytes = "8 word list"

definition seconds :: "int \<Rightarrow> int" where
  "seconds n = n * 1000000"

definition days :: "int \<Rightarrow> int" where
  "days n = seconds (n * 86400)"

text \<open>The dictionary returned by the detector (\<open>run_detection_on_image_bytes\<close>).\<close>

record detection_results =
  detected_objects :: "(string \<times> real) list"
  bounding_boxes :: "real list list"
  total_litter_count :: int
  severity_level :: severity
  detection_confidence :: real

text \<open>
  The values written to \<open>litter_reports.status\<close> by the code modelled here are
  \<open>"pending"\<close>, \<open>"no-litter"\<close> and \<open>"error"\<close>; any other string is \<open>other_status\<close>.
\<close>

datatype report_status = pending | no_litter | error | other_status string

text \<open>The JSON documents stored in \<open>litter_reports.detection_results\<close>.\<close>

datatype results_json =
    results detection_results
  | results_no_litter detection_results
  | results_error string

record Upload =
  u_id :: uuid
  u_user_id :: int
  u_session_id :: string
  u_file_url :: string
  u_latitude :: "real option"
  u_longitude :: "real option"

record LitterReport =
  r_id :: uuid
  r_user_id :: int
  r_group_id :: "uuid option"
  r_upload_id :: "uuid option"
  r_latitude :: real
  r_longitude :: real
  r_detection_results :: "results_json option"
  r_severity :: "severity option"
  r_status :: report_status
  r_is_detected :: bool
  r_is_grouped :: bool
  r_created_at :: datetime
  r_geom :: "point option"

record ImageFingerprint =
  fp_report_id :: uuid
  fp_phash :: "64 word"
  fp_embedding :: bytes

record LitterGroup =
  g_id :: uuid
  g_name :: string
  g_geom :: "point option"
  g_is_locked :: bool

record LitterDetection =
  d_id :: uuid
  d_litter_report_id :: uuid
  d_results :: detection_results

record db =
  uploads :: "Upload list"
  litter_reports :: "LitterReport list"
  image_fingerprints :: "ImageFingerprint list"
  litter_groups :: "LitterGroup list"
  litter_detections :: "LitterDetection list"

text \<open>\<open>db.get(Model, key)\<close>: the row with that primary key, or \<open>None\<close>.\<close>

definition get_report :: "db \<Rightarrow> uuid \<Rightarrow> LitterReport option" where
  "get_report d rid = find (\<lambda>r. r_id r = rid) (litter_reports d)"

definition get_upload :: "db \<Rightarrow> uuid option \<Rightarrow> Upload option" where
  "get_upload d uid =
     (case uid of None \<Rightarrow> None | Some k \<Rightarrow> find (\<lambda>u. u_id u = k) (uploads d))"

text \<open>An \<open>UPDATE litter_reports SET ... WHERE id = rid\<close>.\<close>

definition update_report :: "uuid \<Rightarrow> (LitterReport \<Rightarrow> LitterReport) \<Rightarrow> db \<Rightarrow> db" where
  "update_report rid f d =
     d\<lparr>litter_reports := map (\<lambda>r. if r_id r = rid then f r else r) (litter_reports d)\<rparr>"

section \<open>Radius attachment (assign-to-nearest-group of the report service)\<close>

text \<open>
  The query is
  \<^verbatim>\<open>SELECT id FROM litter_groups
   WHERE ST_DWithin(geom, ST_SetSRID(ST_MakePoint(:lng, :lat), 4326), :radius)
   ORDER BY ST_Distance(geom, ST_SetSRID(ST_MakePoint(:lng, :lat), 4326)) LIMIT 1\<close>
  It has no condition on \<open>is_locked\<close>. PostGIS is not part of the repository: its
  \<open>ST_Distance\<close> is a parameter, \<open>ST_DWithin(a, b, r)\<close> is \<open>ST_Distance(a, b) <= r\<close>, and
  a NULL \<open>geom\<close> makes the condition NULL, so the row is not selected. Among rows at
  the same distance \<open>LIMIT 1\<close> may return any; the model returns the first in table
  order.
\<close>

definition ST_DWithin :: "(point \<Rightarrow> point \<Rightarrow> real) \<Rightarrow> point option \<Rightarrow> point \<Rightarrow> real \<Rightarrow> bool" where
  "ST_DWithin ST_Distance geom p radius =
     (case geom of None \<Rightarrow> False | Some g \<Rightarrow> ST_Distance g p \<le> radius)"

definition nearest_group :: "(point \<Rightarrow> point \<Rightarrow> real) \<Rightarrow> LitterGroup list \<Rightarrow> real \<Rightarrow> real \<Rightarrow> real \<Rightarrow> uuid option" where
  "nearest_group ST_Distance groups lat lng radius =
     (let p = (lng, lat);
          rows = filter (\<lambda>g. ST_DWithin ST_Distance (g_geom g) p radius) groups
      in case sort_key (\<lambda>g. ST_Distance (the (g_geom g)) p) rows of
           [] \<Rightarrow> None
         | row # _ \<Rightarrow> Some (g_id row))"

definition assign_to_nearest_group :: "(point \<Rightarrow> point \<Rightarrow> real) \<Rightarrow> db \<Rightarrow> uuid \<Rightarrow> real \<Rightarrow> real \<Rightarrow> real \<Rightarrow> db" where
  "assign_to_nearest_group ST_Distance d report_id lat lng radius_m =
     (case nearest_group ST_Distance (litter_groups d) lat lng radius_m of
        None \<Rightarrow> d
      | Some gid \<Rightarrow>
          update_report report_id (\<lambda>r. r\<lparr>r_group_id := Some gid, r_is_grouped := True\<rparr>) d)"

text \<open>
  For closed examples: PostGIS computes \<open>ST_Distance\<close> of two \<open>geometry\<close> values in
  the plane of their coordinates.
\<close>

definition planar_distance :: "point \<Rightarrow> point \<Rightarrow> real" where
  "planar_distance p q = sqrt ((fst p - fst q)\<^sup>2 + (snd p - snd q)\<^sup>2)"

section \<open>Cluster suggestions (get-cluster-suggestions of the group service)\<close>

text \<open>
  The rows come from
  \<^verbatim>\<open>SELECT id, ST_X(ST_Transform(geom, 3857)) AS x,
          ST_Y(ST_Transform(geom, 3857)) AS y, severity FROM litter_reports\<close>
  with no \<open>WHERE\<close> clause. The projection and scikit-learn's DBSCAN (which returns
  one label for each point, \<open>-1\<close> for noise) are parameters. A row without \<open>geom\<close> has
  NULL coordinates, which the clustering rejects with an exception.
\<close>

definition cluster_rows :: "(point \<Rightarrow> point) \<Rightarrow> db \<Rightarrow> (uuid \<times> point option \<times> severity option) list" where
  "cluster_rows ST_Transform d =
     map (\<lambda>r. (r_id r, map_option ST_Transform (r_geom r), r_severity r)) (litter_reports d)"

record ClusterSuggestion =
  cluster_id :: int
  report_count :: nat
  avg_severity :: severity
  bbox :: "real \<times> real \<times> real \<times> real"
  members :: "uuid list"

text \<open>\<open>multipoint.envelope.bounds\<close> of the member points.\<close>

definition bounds :: "point list \<Rightarrow> (real \<times> real \<times> real \<times> real) option" where
  "bounds pts =
     (case pts of
        [] \<Rightarrow> None
      | p # ps \<Rightarrow>
          Some (fold min (map fst ps) (fst p), fold min (map snd ps) (snd p),
                fold max (map fst ps) (fst p), fold max (map snd ps) (snd p)))"

text \<open>
  The body of the loop over the cluster labels: noise and empty clusters are skipped;
  the severity is \<open>determine_severity\<close> called with the member count, the bounding
  box as the only box, and \<open>image_size=None\<close>.
\<close>

definition suggestion :: "uuid list \<Rightarrow> point list \<Rightarrow> int list \<Rightarrow> int \<Rightarrow> ClusterSuggestion option" where
  "suggestion ids coords labels cluster_label =
     (if cluster_label = - 1 then None
      else
        let idx = filter (\<lambda>i. labels ! i = cluster_label) [0..<length labels] in
        case bounds (map (\<lambda>i. coords ! i) idx) of
          None \<Rightarrow> None
        | Some (minx, miny, maxx, maxy) \<Rightarrow>
            Some \<lparr>cluster_id = cluster_label,
                  report_count = length idx,
                  avg_severity = determine_severity (int (length idx)) [[minx, miny, maxx, maxy]] None,
                  bbox = (minx, miny, maxx, maxy),
                  members = map (\<lambda>i. ids ! i) idx\<rparr>)"

definition get_cluster_suggestions ::
  "(point \<Rightarrow> point) \<Rightarrow> (real \<Rightarrow> nat \<Rightarrow> point list \<Rightarrow> int list) \<Rightarrow> db \<Rightarrow> real \<Rightarrow> nat \<Rightarrow> string + ClusterSuggestion list" where
  "get_cluster_suggestions ST_Transform DBSCAN d eps minpts =
     (let rows = cluster_rows ST_Transform d in
      if rows = [] then Inr []
      else if list_ex (\<lambda>(i, c, s). c = None) rows then Inl ''ValueError''
      else
        let ids = map fst rows;
            coords = map (\<lambda>(i, c, s). the c) rows;
            labels = DBSCAN eps minpts coords
        in if list_ex (\<lambda>i. labels ! i \<noteq> - 1) [length coords..<length labels] then Inl ''IndexError''
           else Inr (List.map_filter (suggestion ids coords labels) (sort (remdups labels))))"

section \<open>Deduplication signals\<close>

text \<open>The thresholds of the upload routes.\<close>

definition SPATIAL_RADIUS_M :: real where
  "SPATIAL_RADIUS_M = 50"

definition TEMPORAL_WINDOW_S :: int where
  "TEMPORAL_WINDOW_S = 30 * 60"

definition PHASH_THRESHOLD :: nat where
  "PHASH_THRESHOLD = 8"

text \<open>
  A perceptual hash is the 64-bit hash of \<open>imagehash.phash\<close>, stored as its 16 hex
  digits. \<open>ph - old_hash\<close> counts the bit positions in which the two hashes differ.
\<close>

definition hamming :: "64 word \<Rightarrow> 64 word \<Rightarrow> nat" where
  "hamming a b = length (filter (\<lambda>n. bit a n \<noteq> bit b n) [0..<64])"

text \<open>
  \<open>find_spatio_temporal\<close>: the ids of the reports created between \<open>ts - window_s\<close> and
  \<open>ts + window_s\<close> (\<open>between\<close> is inclusive) whose \<open>geom\<close>, cast to geography, is within
  \<open>radius_m\<close> of the point. The geography distance of PostGIS is a parameter.
\<close>

definition find_spatio_temporal ::
  "(point \<Rightarrow> point \<Rightarrow> real) \<Rightarrow> db \<Rightarrow> real \<Rightarrow> real \<Rightarrow> datetime \<Rightarrow> real \<Rightarrow> int \<Rightarrow> uuid list" where
  "find_spatio_temporal geography_distance d lat lng ts radius_m window_s =
     (let point_geo = (lng, lat);
          start = ts - seconds window_s;
          finish = ts + seconds window_s
      in map r_id
           (filter (\<lambda>r. start \<le> r_created_at r \<and> r_created_at r \<le> finish \<and>
                        ST_DWithin geography_distance (r_geom r) point_geo radius_m)
              (litter_reports d)))"

text \<open>
  The fingerprint rows joined with their reports, restricted to reports created at
  or after \<open>now - timedelta(days=7)\<close>, and the loop collecting the ids within the
  threshold.
\<close>

definition recent_fingerprints :: "db \<Rightarrow> datetime \<Rightarrow> (uuid \<times> 64 word) list" where
  "recent_fingerprints d one_week_ago =
     concat (map (\<lambda>fp.
        map (\<lambda>r. (fp_report_id fp, fp_phash fp))
          (filter (\<lambda>r. fp_report_id fp = r_id r \<and> r_created_at r \<ge> one_week_ago) (litter_reports d)))
        (image_fingerprints d))"

definition phash_dup_ids :: "db \<Rightarrow> datetime \<Rightarrow> 64 word \<Rightarrow> uuid list" where
  "phash_dup_ids d now ph =
     (let one_week_ago = now - days 7;
          rows = recent_fingerprints d one_week_ago
      in map fst (filter (\<lambda>(rid, old_hash). hamming ph old_hash \<le> PHASH_THRESHOLD) rows))"

subsection \<open>The norm of an embedding, in the words of the specification\<close>

text \<open>
  An embedding is stored as the bytes of its float32 components, four bytes each.
  How four bytes decode to a number is a parameter.
\<close>

fun chunks4 :: "bytes \<Rightarrow> bytes list" where
  "chunks4 (a # b # c # d # rest) = [a, b, c, d] # chunks4 rest"
| "chunks4 _ = []"

definition embedding_vector :: "(bytes \<Rightarrow> real) \<Rightarrow> bytes \<Rightarrow> real list" where
  "embedding_vector float32 bs = map float32 (chunks4 bs)"

definition l2_norm :: "real list \<Rightarrow> real" where
  "l2_norm v = sqrt (sum_list (map (\<lambda>x. x * x) v))"

section \<open>The upload endpoint (upload-create-report-and-detect)\<close>

text \<open>
  What the request handler takes from outside the store: the clocks, the keys the
  store generates for new rows, the name under which the file is saved, the
  perceptual hash that PIL and imagehash compute for the file (\<open>None\<close> when the file
  cannot be opened as an image), and PostGIS's distance between geometries.
\<close>

record env =
  utcnow :: datetime
  local_now :: datetime
  fresh_upload_id :: uuid
  fresh_report_id :: uuid
  fresh_file_url :: string
  image_phash :: "bytes \<Rightarrow> 64 word option"
  geometry_distance :: "point \<Rightarrow> point \<Rightarrow> real"

record submission =
  file_bytes :: bytes
  latitude :: "real option"
  longitude :: "real option"
  user_id :: int
  session_id :: string

datatype reason = spatio_temporal | phash | embedding

datatype detail = duplicate reason "uuid list" | message string | status_message string nat

text \<open>
  A response is the JSON answer with its status code, an \<open>HTTPException\<close> with code
  and detail, or an exception nobody handles (the framework answers 500).
\<close>

datatype response = JSONResponse nat uuid | HTTPException nat detail | unhandled string

text \<open>
  \<open>create_upload_with_file\<close> saves the file and inserts the Upload row; the primary
  key makes an insert with an existing id fail.
\<close>

definition create_upload_with_file :: "env \<Rightarrow> db \<Rightarrow> submission \<Rightarrow> string + (Upload \<times> db)" where
  "create_upload_with_file e d s =
     (if fresh_upload_id e \<in> set (map u_id (uploads d)) then Inl ''IntegrityError''
      else
        let upload = \<lparr>u_id = fresh_upload_id e, u_user_id = user_id s,
                      u_session_id = session_id s, u_file_url = fresh_file_url e,
                      u_latitude = latitude s, u_longitude = longitude s\<rparr>
        in Inr (upload, d\<lparr>uploads := uploads d @ [upload]\<rparr>))"

text \<open>
  \<open>create_litter_report\<close>: insert the row, set its \<open>geom\<close>, attempt radius attachment
  within 500; any exception is caught, rolled back and answered with \<open>None\<close>.
\<close>

definition create_litter_report ::
  "env \<Rightarrow> db \<Rightarrow> int \<Rightarrow> uuid \<Rightarrow> real \<Rightarrow> real \<Rightarrow> LitterReport option \<times> db" where
  "create_litter_report e d uid upload_id lat lng =
     (if fresh_report_id e \<in> set (map r_id (litter_reports d)) then (None, d)
      else
        let new_report =
              \<lparr>r_id = fresh_report_id e, r_user_id = uid, r_group_id = None,
               r_upload_id = Some upload_id, r_latitude = lat, r_longitude = lng,
               r_detection_results = None, r_severity = None, r_status = pending,
               r_is_detected = False, r_is_grouped = False,
               r_created_at = local_now e, r_geom = None\<rparr>;
            d1 = d\<lparr>litter_reports := litter_reports d @ [new_report]\<rparr>;
            d2 = update_report (r_id new_report) (\<lambda>r. r\<lparr>r_geom := Some (lng, lat)\<rparr>) d1;
            d3 = assign_to_nearest_group (geometry_distance e) d2 (r_id new_report) lat lng 500
        in (Some (new_report\<lparr>r_geom := Some (lng, lat)\<rparr>), d3))"

text \<open>
  The handler: hash the image, reject on a perceptual-hash match, save the upload,
  create the report (\<open>LitterReportCreate\<close> requires latitude and longitude to be
  floats), store the fingerprint with an empty embedding, set \<open>geom\<close>, answer 201.
\<close>

definition upload_create_report_and_detect :: "env \<Rightarrow> db \<Rightarrow> submission \<Rightarrow> response \<times> db" where
  "upload_create_report_and_detect e d s =
     (case image_phash e (file_bytes s) of
        None \<Rightarrow> (unhandled ''UnidentifiedImageError'', d)
      | Some ph \<Rightarrow>
          let dup_ids = phash_dup_ids d (utcnow e) ph in
          if dup_ids \<noteq> [] then (HTTPException 409 (duplicate phash dup_ids), d)
          else
            case create_upload_with_file e d s of
              Inl exn \<Rightarrow> (unhandled exn, d)
            | Inr (upload, d1) \<Rightarrow>
                (case (latitude s, longitude s) of
                   (Some lat, Some lng) \<Rightarrow>
                     (case create_litter_report e d1 (user_id s) (u_id upload) lat lng of
                        (None, d2) \<Rightarrow>
                          (HTTPException 400 (message ''Failed to create litter report''), d2)
                      | (Some report, d2) \<Rightarrow>
                          if r_id report \<in> set (map fp_report_id (image_fingerprints d2))
                          then (unhandled ''IntegrityError'', d2)
                          else
                            let fp = \<lparr>fp_report_id = r_id report, fp_phash = ph, fp_embedding = []\<rparr>;
                                d3 = d2\<lparr>image_fingerprints := image_fingerprints d2 @ [fp]\<rparr>;
                                d4 = update_report (r_id report) (\<lambda>r. r\<lparr>r_geom := Some (lng, lat)\<rparr>) d3
                            in (JSONResponse 201 (r_id report), d4))
                 | _ \<Rightarrow> (unhandled ''ValidationError'', d1)))"

section \<open>Fetching the image and running detection (fetch-image-bytes, create-litter-detection)\<close>

text \<open>
  One \<open>_session.get\<close> either returns a response (status code, \<open>Location\<close> header,
  body) or raises \<open>requests.RequestException\<close>. The network is a function from the
  attempt number and the URL to the outcome; the manual redirect request is attempt 0.
  The \<open>Authorization\<close> header changes what is sent, not the control flow, and is left
  out, as are logging and the sleeps between attempts.
\<close>

datatype http_outcome = Response nat "string option" bytes | RequestException

record detector_env =
  UPLOAD_URL :: "string option"
  urlparse_scheme :: "string \<Rightarrow> string"
  urljoin :: "string \<Rightarrow> string \<Rightarrow> string"
  session_get :: "nat \<Rightarrow> string \<Rightarrow> http_outcome"
  run_detection_on_image_bytes :: "bytes \<Rightarrow> string + detection_results"
  fresh_detection_id :: uuid

definition lstrip_slash :: "string \<Rightarrow> string" where
  "lstrip_slash s = dropWhile (\<lambda>c. c = CHR ''/'') s"

definition rstrip_slash :: "string \<Rightarrow> string" where
  "rstrip_slash s = rev (dropWhile (\<lambda>c. c = CHR ''/'') (rev s))"

text \<open>
  The loop \<open>for attempt in range(1, max_attempts + 1)\<close>: stop on 200 and on a client
  error, go on after a server error (keeping the response) and after an exception
  (with \<open>resp = None\<close>).
\<close>

fun attempts :: "(nat \<Rightarrow> string \<Rightarrow> http_outcome) \<Rightarrow> string \<Rightarrow> nat list \<Rightarrow>
    (nat \<times> string option \<times> bytes) option \<Rightarrow> (nat \<times> string option \<times> bytes) option" where
  "attempts get file_url [] resp = resp"
| "attempts get file_url (attempt # rest) resp =
     (case get attempt file_url of
        RequestException \<Rightarrow> attempts get file_url rest None
      | Response status_code location content \<Rightarrow>
          if status_code = 200 then Some (status_code, location, content)
          else if 400 \<le> status_code \<and> status_code < 500 then Some (status_code, location, content)
          else attempts get file_url rest (Some (status_code, location, content)))"

text \<open>The result is the body, or the \<open>HTTPException\<close> raised, as code and detail.\<close>

definition fetch_image_bytes :: "detector_env \<Rightarrow> string \<Rightarrow> (nat \<times> detail) + bytes" where
  "fetch_image_bytes e path_or_url =
     (let scheme = urlparse_scheme e path_or_url;
          file_url =
            (if scheme = ''http'' \<or> scheme = ''https'' then Some path_or_url
             else case UPLOAD_URL e of
                    None \<Rightarrow> None
                  | Some upload_base \<Rightarrow>
                      if upload_base = [] then None
                      else Some (rstrip_slash upload_base @ ''/'' @ lstrip_slash path_or_url))
      in case file_url of
           None \<Rightarrow> Inl (500, message ''Server misconfiguration: UPLOAD_URL not set'')
         | Some url \<Rightarrow>
             (case attempts (session_get e) url [1, 2, 3] None of
                None \<Rightarrow> Inl (500, message ''Failed to download image: no response'')
              | Some (status_code, location, content) \<Rightarrow>
                  let resp =
                        (if status_code \<in> {301, 302, 303, 307, 308} \<and> location \<noteq> None \<and> location \<noteq> Some []
                         then case session_get e 0 (urljoin e url (the location)) of
                                Response status2 location2 content2 \<Rightarrow> (status2, content2)
                              | RequestException \<Rightarrow> (status_code, content)
                         else (status_code, content))
                  in if fst resp \<noteq> 200
                     then Inl (502, status_message ''Failed to download image, status='' (fst resp))
                     else Inr (snd resp)))"

text \<open>
  \<open>create_litter_detection\<close>. Its docstring: "Runs detection and persists both the
  LitterDetection and report update. Guarantees the report.status is updated on any
  failure." The \<open>try\<close> body raises \<open>HTTPException\<close> for a missing report or upload, lets
  the one of \<open>fetch_image_bytes\<close> through, and raises one itself after writing
  \<open>no-litter\<close>; \<open>except HTTPException\<close> rolls back (nothing is pending) and re-raises;
  \<open>except Exception\<close> writes \<open>error\<close> and raises 500.
\<close>

definition create_litter_detection ::
  "detector_env \<Rightarrow> db \<Rightarrow> uuid \<Rightarrow> ((nat \<times> detail) + LitterDetection) \<times> db" where
  "create_litter_detection e d report_id =
     (case get_report d report_id of
        None \<Rightarrow> (Inl (404, message ''Report not found''), d)
      | Some report \<Rightarrow>
          (case get_upload d (r_upload_id report) of
             None \<Rightarrow> (Inl (400, message ''No upload or file_url''), d)
           | Some upload \<Rightarrow>
               if u_file_url upload = [] then (Inl (400, message ''No upload or file_url''), d)
               else
                 case fetch_image_bytes e (u_file_url upload) of
                   Inl http_exception \<Rightarrow> (Inl http_exception, d)
                 | Inr img_bytes \<Rightarrow>
                     (case run_detection_on_image_bytes e img_bytes of
                        Inl exn \<Rightarrow>
                          (Inl (500, message ''Detection service error''),
                           update_report report_id
                             (\<lambda>r. r\<lparr>r_status := error, r_detection_results := Some (results_error exn)\<rparr>) d)
                      | Inr detection_results \<Rightarrow>
                          if total_litter_count detection_results = 0 then
                            (Inl (400, message ''No litter detected.''),
                             update_report report_id
                               (\<lambda>r. r\<lparr>r_status := no_litter, r_is_detected := False,
                                       r_detection_results := Some (results_no_litter detection_results)\<rparr>) d)
                          else
                            let detection = \<lparr>d_id = fresh_detection_id e,
                                             d_litter_report_id = report_id,
                                             d_results = detection_results\<rparr>
                            in (Inr detection,
                                update_report report_id
                                  (\<lambda>r. r\<lparr>r_severity := Some (severity_level detection_results),
                                          r_is_detected := True,
                                          r_detection_results := Some (results detection_results)\<rparr>)
                                  (d\<lparr>litter_detections := litter_detections d @ [detection]\<rparr>)))))"

section \<open>Example stores\<close>

text \<open>Concrete rows and stores on which the properties below are evaluated.\<close>

definition example_report :: "uuid \<Rightarrow> point \<Rightarrow> LitterReport" where
  "example_report i p =
     \<lparr>r_id = i, r_user_id = 1, r_group_id = None, r_upload_id = None,
      r_latitude = snd p, r_longitude = fst p, r_detection_results = None,
      r_severity = None, r_status = pending, r_is_detected = False, r_is_grouped = False,
      r_created_at = 0, r_geom = Some p\<rparr>"

definition three_reports :: db where
  "three_reports =
     \<lparr>uploads = [], litter_reports = [example_report 11 (0, 0), example_report 12 (10, 0), example_report 13 (0, 10)],
      image_fingerprints = [], litter_groups = [], litter_detections = []\<rparr>"

definition one_cluster :: "real \<Rightarrow> nat \<Rightarrow> point list \<Rightarrow> int list" where
  "one_cluster eps minpts pts = map (\<lambda>_. 0) pts"

definition locked_group :: LitterGroup where
  "locked_group = \<lparr>g_id = 21, g_name = ''Cluster 0'', g_geom = Some (77.5946, 12.9716), g_is_locked = True\<rparr>"

definition claimed_report :: LitterReport where
  "claimed_report = (example_report 31 (77.5946, 12.9716))\<lparr>r_group_id := Some 21, r_is_grouped := True\<rparr>"

definition locked_db :: db where
  "locked_db =
     \<lparr>uploads = [], litter_reports = [claimed_report], image_fingerprints = [],
      litter_groups = [locked_group], litter_detections = []\<rparr>"

definition group_L :: LitterGroup where
  "group_L = \<lparr>g_id = 21, g_name = ''L'', g_geom = Some (0, 0), g_is_locked = True\<rparr>"

definition group_U :: LitterGroup where
  "group_U = \<lparr>g_id = 22, g_name = ''U'', g_geom = Some (1 / 1000, 0), g_is_locked = False\<rparr>"

definition two_groups_db :: db where
  "two_groups_db =
     \<lparr>uploads = [], litter_reports = [example_report 32 (0, 0)], image_fingerprints = [],
      litter_groups = [group_U, group_L], litter_detections = []\<rparr>"

definition example_env :: "64 word \<Rightarrow> env" where
  "example_env ph =
     \<lparr>utcnow = seconds 600, local_now = seconds 600, fresh_upload_id = 51, fresh_report_id = 52,
      fresh_file_url = ''/uploads/a.jpg'', image_phash = (\<lambda>_. Some ph),
      geometry_distance = planar_distance\<rparr>"

definition example_submission :: submission where
  "example_submission =
     \<lparr>file_bytes = [], latitude = Some 12.9716, longitude = Some 77.5946, user_id = 1,
      session_id = ''s''\<rparr>"

definition nearby_db :: db where
  "nearby_db =
     \<lparr>uploads = [], litter_reports = [example_report 41 (77.5946, 12.9716)], image_fingerprints = [],
      litter_groups = [], litter_detections = []\<rparr>"

definition fingerprinted_db :: db where
  "fingerprinted_db =
     \<lparr>uploads = [], litter_reports = [example_report 41 (77.5946, 12.9716)],
      image_fingerprints = [\<lparr>fp_report_id = 41, fp_phash = 0, fp_embedding = []\<rparr>],
      litter_groups = [], litter_detections = []\<rparr>"

definition pending_db :: db where
  "pending_db =
     \<lparr>uploads = [\<lparr>u_id = 62, u_user_id = 1, u_session_id = ''s'', u_file_url = ''/uploads/a.jpg'',
                  u_latitude = Some 12.9716, u_longitude = Some 77.5946\<rparr>],
      litter_reports = [(example_report 61 (77.5946, 12.9716))\<lparr>r_upload_id := Some 62\<rparr>],
      image_fingerprints = [], litter_groups = [], litter_detections = []\<rparr>"

text \<open>An upload host that answers 404 at once, and one that delivers the file.\<close>

definition not_found_env :: detector_env where
  "not_found_env =
     \<lparr>UPLOAD_URL = Some ''http://localhost:8000'', urlparse_scheme = (\<lambda>_. []),
      urljoin = (\<lambda>base location. location), session_get = (\<lambda>_ _. Response 404 None []),
      run_detection_on_image_bytes = (\<lambda>_. Inl ''BAD_DECODE''), fresh_detection_id = 63\<rparr>"

definition bad_image_env :: detector_env where
  "bad_image_env = not_found_env\<lparr>session_get := (\<lambda>_ _. Response 200 None [])\<rparr>"

chapter \<open>Properties\<close>

section \<open>Properties of the severity policy\<close>

lemma density_gt:
  assumes "0 < w * h"
  shows "(c < a / real_of_int (w * h)) = (c * real_of_int (w * h) < a)"
proof -
  from assms have "0 < real_of_int (w * h)" by (simp only: of_int_0_less_iff)
  then show ?thesis by (simp only: pos_less_divide_eq)
qed

lemma determine_severity_cases:
  "determine_severity n boxes (Some (w, h)) =
     (if n = 0 then none
      else if 0 < w * h \<and> boxes_area boxes > 0.10 * real_of_int (w * h) then high
      else if 0 < w * h \<and> boxes_area boxes > 0.05 * real_of_int (w * h) \<and> count_level n = low
           then medium
      else count_level n)"
proof (cases "0 < w * h")
  case False
  then show ?thesis
    by (simp add: determine_severity_def count_level_def Let_def)
next
  case True
  then have pos: "0 < real_of_int (w * h)" by (simp only: of_int_0_less_iff)
  show ?thesis
  proof (cases "boxes = []")
    case True
    with pos \<open>0 < w * h\<close> show ?thesis
      by (simp add: determine_severity_def count_level_def Let_def)
  next
    case False
    with \<open>0 < w * h\<close> show ?thesis
      unfolding determine_severity_def count_level_def Let_def
      by (simp add: density_gt del: of_int_mult)
  qed
qed

lemma determine_severity_no_size:
  "determine_severity n boxes None = (if n = 0 then none else count_level n)"
  by (simp add: determine_severity_def count_level_def)

lemma count_level_not_none: "count_level n \<noteq> none"
  by (simp add: count_level_def)

lemma rank_count_level:
  "rank (count_level n) \<le> rank high \<and> (count_level n = low \<longrightarrow> rank (count_level n) \<le> rank medium)"
  by (simp add: count_level_def)

text \<open>
  C7 (as the code has it). \<open>determine_severity\<close> returns \<open>none\<close> exactly when the
  count is 0; otherwise it returns the level of the count (\<open>low\<close> below 5, \<open>medium\<close>
  below 15, \<open>high\<close> from 15 on), raised to \<open>high\<close> when the \<^emph>\<open>sum\<close> of the boxes'
  areas (each box's width times height, both clamped at 0, a region shared by several
  boxes counted once for each of them) exceeds 10% of a positive image area, and from
  \<open>low\<close> to \<open>medium\<close> when that sum exceeds 5% of it; with an image area that is not
  positive the level of the count is returned as it is. The result is never below the
  level of the count.
\<close>

theorem determine_severity_policy:
  "(determine_severity n boxes (Some (w, h)) = none \<longleftrightarrow> n = 0) \<and>
   (n \<noteq> 0 \<and> 0 < w * h \<and> boxes_area boxes > 0.10 * real_of_int (w * h) \<longrightarrow>
      determine_severity n boxes (Some (w, h)) = high) \<and>
   (n \<noteq> 0 \<and> 0 < w * h \<and> boxes_area boxes > 0.05 * real_of_int (w * h) \<and>
    \<not> boxes_area boxes > 0.10 * real_of_int (w * h) \<and> count_level n = low \<longrightarrow>
      determine_severity n boxes (Some (w, h)) = medium) \<and>
   (n \<noteq> 0 \<and> \<not> (0 < w * h \<and> boxes_area boxes > 0.10 * real_of_int (w * h)) \<and>
    \<not> (0 < w * h \<and> boxes_area boxes > 0.05 * real_of_int (w * h) \<and> count_level n = low) \<longrightarrow>
      determine_severity n boxes (Some (w, h)) = count_level n) \<and>
   (n \<noteq> 0 \<longrightarrow> rank (count_level n) \<le> rank (determine_severity n boxes (Some (w, h)))) \<and>
   count_level n = (if n < 5 then low else if n < 15 then medium else high)"
proof (intro conjI impI)
  show "(determine_severity n boxes (Some (w, h)) = none) = (n = 0)"
    by (simp add: determine_severity_cases count_level_not_none)
next
  assume "n \<noteq> 0 \<and> 0 < w * h \<and> boxes_area boxes > 0.10 * real_of_int (w * h)"
  then show "determine_severity n boxes (Some (w, h)) = high"
    by (simp add: determine_severity_cases)
next
  assume "n \<noteq> 0 \<and> 0 < w * h \<and> boxes_area boxes > 0.05 * real_of_int (w * h) \<and>
    \<not> boxes_area boxes > 0.10 * real_of_int (w * h) \<and> count_level n = low"
  then show "determine_severity n boxes (Some (w, h)) = medium"
    by (simp add: determine_severity_cases)
next
  assume "n \<noteq> 0 \<and> \<not> (0 < w * h \<and> boxes_area boxes > 0.10 * real_of_int (w * h)) \<and>
    \<not> (0 < w * h \<and> boxes_area boxes > 0.05 * real_of_int (w * h) \<and> count_level n = low)"
  then show "determine_severity n boxes (Some (w, h)) = count_level n"
    unfolding determine_severity_cases by (simp only: if_False split: if_splits)
next
  assume "n \<noteq> 0"
  then show "rank (count_level n) \<le> rank (determine_severity n boxes (Some (w, h)))"
    using rank_count_level [of n] by (simp add: determine_severity_cases)
next
  show "count_level n = (if n < 5 then low else if n < 15 then medium else high)"
    by (simp add: count_level_def)
qed

theorem determine_severity_policy_witness:
  "determine_severity 3 [[0, 0, 60, 100]] (Some (100, 100)) = high \<and>
   determine_severity 3 [[0, 0, 6, 100]] (Some (100, 100)) = medium \<and>
   determine_severity 7 [[0, 0, 6, 100]] (Some (100, 100)) = medium \<and>
   determine_severity 3 [[0, 0, 1, 1]] (Some (0, 0)) = low"
  using determine_severity_policy [of 3 "[[0, 0, 60, 100]]" 100 100]
        determine_severity_policy [of 3 "[[0, 0, 6, 100]]" 100 100]
        determine_severity_policy [of 7 "[[0, 0, 6, 100]]" 100 100]
        determine_severity_policy [of 3 "[[0, 0, 1, 1]]" 0 0]
  by (simp add: box_area_def)

text \<open>
  C7 as the specification words it fails: two boxes of 6% of a 100 x 100 image each
  that share half of their area (IoU 1/3, so the safety-net NMS keeps both) have a
  union of 9% of the image, for which the worded policy gives \<open>medium\<close> at a count of
  2; the code adds the two areas to 12% and returns \<open>high\<close>.
\<close>

theorem severity_union_counterexample:
  "determine_severity 2 [[0, 0, 6, 100], [3, 0, 9, 100]] (Some (100, 100)) = high \<and>
   union_area [[0, 0, 6, 100], [3, 0, 9, 100]] = 900 \<and>
   severity_policy_spec 2 [[0, 0, 6, 100], [3, 0, 9, 100]] (100 * 100) = medium"
  by (simp add: determine_severity_def box_area_def severity_policy_spec_def union_area_def
      well_formed_def cuts_def covers_def count_level_def)

section \<open>Non-max suppression\<close>

lemma nms_loop_Cons:
  "nms_loop boxes t (i # rest) =
     i # nms_loop boxes t (filter (\<lambda>j. iou_within t (boxes ! i) (boxes ! j)) rest)"
  by (cases rest) simp_all

lemma nms_loop_subset: "set (nms_loop boxes t ord) \<subseteq> set ord"
proof (induction ord rule: length_induct)
  case (1 ord)
  show ?case
  proof (cases ord)
    case Nil
    then show ?thesis by simp
  next
    case (Cons i rest)
    let ?r = "filter (\<lambda>j. iou_within t (boxes ! i) (boxes ! j)) rest"
    have "length ?r < length ord" using Cons by (simp add: less_Suc_eq_le)
    then have "set (nms_loop boxes t ?r) \<subseteq> set ?r" by (rule 1 [rule_format])
    then show ?thesis unfolding Cons nms_loop_Cons by auto
  qed
qed

lemma nms_loop_distinct: "distinct ord \<Longrightarrow> distinct (nms_loop boxes t ord)"
proof (induction ord rule: length_induct)
  case (1 ord)
  show ?case
  proof (cases ord)
    case Nil
    then show ?thesis by simp
  next
    case (Cons i rest)
    let ?r = "filter (\<lambda>j. iou_within t (boxes ! i) (boxes ! j)) rest"
    have len: "length ?r < length ord" using Cons by (simp add: less_Suc_eq_le)
    have d: "distinct ?r" and ni: "i \<notin> set rest" using 1(2) Cons by simp_all
    have "distinct (nms_loop boxes t ?r)" by (rule 1(1) [rule_format, OF len d])
    moreover have "i \<notin> set (nms_loop boxes t ?r)"
      using nms_loop_subset [of boxes t ?r] ni by auto
    ultimately show ?thesis unfolding Cons nms_loop_Cons by simp
  qed
qed

lemma nms_loop_pairwise:
  "sorted_wrt (\<lambda>i j. iou_within t (boxes ! i) (boxes ! j)) (nms_loop boxes t ord)"
proof (induction ord rule: length_induct)
  case (1 ord)
  show ?case
  proof (cases ord)
    case Nil
    then show ?thesis by simp
  next
    case (Cons i rest)
    let ?r = "filter (\<lambda>j. iou_within t (boxes ! i) (boxes ! j)) rest"
    have len: "length ?r < length ord" using Cons by (simp add: less_Suc_eq_le)
    have ih: "sorted_wrt (\<lambda>i j. iou_within t (boxes ! i) (boxes ! j)) (nms_loop boxes t ?r)"
      using 1 len by simp
    have hd: "\<forall>j \<in> set (nms_loop boxes t ?r). iou_within t (boxes ! i) (boxes ! j)"
    proof
      fix j assume "j \<in> set (nms_loop boxes t ?r)"
      with nms_loop_subset [of boxes t ?r] have "j \<in> set ?r" by (rule subsetD)
      then show "iou_within t (boxes ! i) (boxes ! j)" by simp
    qed
    have "sorted_wrt (\<lambda>i j. iou_within t (boxes ! i) (boxes ! j)) (i # nms_loop boxes t ?r)"
      using ih hd by (simp only: sorted_wrt.simps simp_thms)
    then show ?thesis by (simp only: Cons nms_loop_Cons)
  qed
qed

lemma nms_loop_fixed:
  "sorted_wrt (\<lambda>i j. iou_within t (boxes ! i) (boxes ! j)) ord \<Longrightarrow> nms_loop boxes t ord = ord"
proof (induction ord)
  case Nil
  then show ?case by simp
next
  case (Cons i rest)
  then have "filter (\<lambda>j. iou_within t (boxes ! i) (boxes ! j)) rest = rest"
    by (simp add: filter_id_conv)
  with Cons show ?case by (simp add: nms_loop_Cons)
qed

lemma inter_sym: "inter a b = inter b a"
  by (simp add: inter_def min.commute max.commute split: prod.splits)

lemma iou_within_sym: "iou_within t a b = iou_within t b a"
  unfolding iou_within_def inter_sym [of a b] by (simp only: add.commute [of "area a"])

lemma argsort_props:
  "distinct (argsort s)" "set (argsort s) = {0..<length s}" "length (argsort s) = length s"
  "mset (argsort s) = mset [0..<length s]"
  by (simp_all add: argsort_def)

lemma nms_props:
  "distinct (nms boxes scores t)"
  "sorted_wrt (\<lambda>i j. iou_within t (boxes ! i) (boxes ! j)) (nms boxes scores t)"
  "set (nms boxes scores t) \<subseteq> {0..<length scores}"
  using nms_loop_subset [of boxes t "rev (argsort scores)"]
  by (simp_all add: nms_def nms_loop_distinct nms_loop_pairwise argsort_props)

lemma kept_pairwise:
  assumes a: "a < length (nms boxes scores t)" and b: "b < length (nms boxes scores t)" and ab: "a \<noteq> b"
  shows "iou_within t (boxes ! (nms boxes scores t ! a)) (boxes ! (nms boxes scores t ! b))"
proof (cases "a < b")
  case True
  with nms_props(2) [of t boxes scores] b show ?thesis
    by (simp add: sorted_wrt_iff_nth_less)
next
  case False
  with ab have "b < a" by simp
  with nms_props(2) [of t boxes scores] a
  have "iou_within t (boxes ! (nms boxes scores t ! b)) (boxes ! (nms boxes scores t ! a))"
    by (simp add: sorted_wrt_iff_nth_less)
  then show ?thesis by (simp only: iou_within_sym)
qed

lemma nms_all_kept:
  assumes len: "length scores' = length boxes'"
    and pw: "\<forall>a<length boxes'. \<forall>b<length boxes'. a \<noteq> b \<longrightarrow> iou_within t (boxes' ! a) (boxes' ! b)"
  shows "nms boxes' scores' t = rev (argsort scores')"
proof (cases "boxes' = []")
  case True
  with len show ?thesis by (simp add: nms_def argsort_def)
next
  case False
  let ?ord = "rev (argsort scores')"
  have d: "distinct ?ord" and s: "set ?ord = {0..<length boxes'}" and l: "length ?ord = length boxes'"
    using len by (simp_all add: argsort_props)
  have "sorted_wrt (\<lambda>i j. iou_within t (boxes' ! i) (boxes' ! j)) ?ord"
    unfolding sorted_wrt_iff_nth_less
  proof (intro allI impI)
    fix p q assume pq: "p < q" "q < length ?ord"
    then have "?ord ! p \<in> set ?ord" "?ord ! q \<in> set ?ord" by (simp_all only: nth_mem order.strict_trans)
    then have "?ord ! p < length boxes'" "?ord ! q < length boxes'" unfolding s by simp_all
    moreover have "?ord ! p \<noteq> ?ord ! q" using d pq by (simp add: nth_eq_iff_index_eq)
    ultimately show "iou_within t (boxes' ! (?ord ! p)) (boxes' ! (?ord ! q))" using pw by blast
  qed
  then have "nms_loop boxes' t ?ord = ?ord" by (rule nms_loop_fixed)
  with False show ?thesis by (simp add: nms_def)
qed

text \<open>
  C8. Running \<open>nms\<close> again on the boxes it kept, with their scores and the same
  threshold, keeps every one of them: the indices returned are exactly the positions
  \<open>0 ..< length keep\<close>, because any two different kept boxes have an IoU within the
  threshold. The two arrays have one row per box in the source, hence the hypothesis.
\<close>

theorem nms_idempotent:
  assumes "length scores = length boxes"
  shows "let keep = nms boxes scores t;
             boxes' = map (\<lambda>i. boxes ! i) keep;
             scores' = map (\<lambda>i. scores ! i) keep
         in mset (nms boxes' scores' t) = mset [0..<length keep] \<and>
            (\<forall>a<length keep. \<forall>b<length keep. a \<noteq> b \<longrightarrow> iou_within t (boxes' ! a) (boxes' ! b))"
proof -
  let ?keep = "nms boxes scores t"
  let ?boxes = "map (\<lambda>i. boxes ! i) ?keep"
  let ?scores = "map (\<lambda>i. scores ! i) ?keep"
  have pw: "\<forall>a<length ?boxes. \<forall>b<length ?boxes. a \<noteq> b \<longrightarrow> iou_within t (?boxes ! a) (?boxes ! b)"
    using kept_pairwise [of _ boxes scores t] by simp
  have "nms ?boxes ?scores t = rev (argsort ?scores)"
    by (rule nms_all_kept [OF _ pw]) simp
  then have "mset (nms ?boxes ?scores t) = mset [0..<length ?keep]"
    by (simp add: argsort_props)
  with pw show ?thesis by (simp add: Let_def)
qed


lemma nms_example:
  "nms [(0, 0, 10, 10), (1, 1, 11, 11), (20, 20, 30, 30)] [9 / 10, 8 / 10, 7 / 10] (45 / 100) = [0, 2]"
  by (simp add: nms_def argsort_def iou_within_def area_def inter_def upt_rec numeral_nat)

text \<open>The two overlapping boxes of the severity example both survive the suppression.\<close>

lemma overlapping_boxes_kept:
  "nms [(0, 0, 6, 100), (3, 0, 9, 100)] [9 / 10, 8 / 10] (45 / 100) = [0, 1]"
  by (simp add: nms_def argsort_def iou_within_def area_def inter_def upt_rec numeral_nat)

theorem nms_idempotent_witness:
  "length [9 / 10, 8 / 10, 7 / 10 :: real] = length [(0, 0, 10, 10), (1, 1, 11, 11), (20, 20, 30, 30) :: bbox] \<and>
   mset (nms (map (\<lambda>i. [(0, 0, 10, 10), (1, 1, 11, 11), (20, 20, 30, 30)] ! i)
               (nms [(0, 0, 10, 10), (1, 1, 11, 11), (20, 20, 30, 30)] [9 / 10, 8 / 10, 7 / 10] (45 / 100)))
            (map (\<lambda>i. [9 / 10, 8 / 10, 7 / 10] ! i)
               (nms [(0, 0, 10, 10), (1, 1, 11, 11), (20, 20, 30, 30)] [9 / 10, 8 / 10, 7 / 10] (45 / 100)))
            (45 / 100))
     = mset [0..<length (nms [(0, 0, 10, 10), (1, 1, 11, 11), (20, 20, 30, 30)] [9 / 10, 8 / 10, 7 / 10] (45 / 100))]"
  using nms_idempotent [of "[9 / 10, 8 / 10, 7 / 10]" "[(0, 0, 10, 10), (1, 1, 11, 11), (20, 20, 30, 30)]" "45 / 100"]
  by (simp add: Let_def)

section \<open>Cluster suggestions\<close>

lemma suggestion_severity:
  assumes "suggestion ids coords labels l = Some s"
  shows "avg_severity s = count_level (int (report_count s)) \<and> 0 < report_count s"
proof -
  let ?idx = "filter (\<lambda>i. labels ! i = l) [0..<length labels]"
  from assms obtain minx miny maxx maxy where
    b: "bounds (map (\<lambda>i. coords ! i) ?idx) = Some (minx, miny, maxx, maxy)"
    and s: "s = \<lparr>cluster_id = l, report_count = length ?idx,
                 avg_severity = determine_severity (int (length ?idx)) [[minx, miny, maxx, maxy]] None,
                 bbox = (minx, miny, maxx, maxy), members = map (\<lambda>i. ids ! i) ?idx\<rparr>"
    by (auto simp: suggestion_def Let_def split: if_splits option.splits)
  from b have "?idx \<noteq> []" by (auto simp: bounds_def)
  then have "0 < length ?idx" by simp
  with s show ?thesis by (simp add: determine_severity_no_size)
qed

text \<open>
  C9 (as the code has it). Every cluster of a suggestion run has at least one member
  and its aggregate severity is the level of its member count alone (\<open>low\<close> below 5,
  \<open>medium\<close> below 15, \<open>high\<close> from 15 on): \<open>determine_severity\<close> is called with
  \<open>image_size=None\<close>, so no reference area exists and no density upgrade is made.
\<close>

theorem cluster_severity_count_based:
  assumes "get_cluster_suggestions ST_Transform DBSCAN d eps minpts = Inr suggestions"
    and "s \<in> set suggestions"
  shows "avg_severity s = count_level (int (report_count s)) \<and> 0 < report_count s"
proof -
  from assms obtain ids coords labels l where "suggestion ids coords labels l = Some s"
    by (auto simp: get_cluster_suggestions_def Let_def List.map_filter_def split: if_splits)
  then show ?thesis by (rule suggestion_severity)
qed


lemma three_reports_rows: "cluster_rows (\<lambda>p. p) three_reports = [(11, Some (0,0), None), (12, Some (10,0), None), (13, Some (0,10), None)]"
  by (simp add: cluster_rows_def three_reports_def example_report_def)

lemma three_labels_idx: "filter (\<lambda>i. [0, 0, 0 :: int] ! i = 0) [0..<length [0, 0, 0 :: int]] = [0, 1, 2]"
  by (simp add: upt_rec)

lemma three_reports_suggestion: "suggestion [11, 12, 13] [(0,0), (10,0), (0,10)] [0, 0, 0] 0 =
   Some \<lparr>cluster_id = 0, report_count = 3, avg_severity = low, bbox = (0, 0, 10, 10), members = [11, 12, 13]\<rparr>"
  unfolding suggestion_def Let_def three_labels_idx
  by (simp add: bounds_def determine_severity_def)

lemma three_reports_suggestions:
  "get_cluster_suggestions (\<lambda>p. p) one_cluster three_reports 500 3 =
     Inr [\<lparr>cluster_id = 0, report_count = 3, avg_severity = low, bbox = (0, 0, 10, 10), members = [11, 12, 13]\<rparr>]"
  unfolding get_cluster_suggestions_def three_reports_rows Let_def
  by (simp add: one_cluster_def List.map_filter_def three_reports_suggestion)


theorem cluster_severity_count_based_witness:
  "avg_severity \<lparr>cluster_id = 0, report_count = 3, avg_severity = low, bbox = (0, 0, 10, 10), members = [11, 12, 13]\<rparr>
     = count_level 3"
  using cluster_severity_count_based [OF three_reports_suggestions, of "\<lparr>cluster_id = 0, report_count = 3, avg_severity = low, bbox = (0, 0, 10, 10), members = [11, 12, 13]\<rparr>"]
  by simp

text \<open>
  C9 as the specification words it fails: three reports whose bounding box is the
  square from (0, 0) to (10, 10) form a cluster of severity \<open>low\<close>, while the policy
  of 4.2 with the box area as reference area sees the box cover all of it and gives
  \<open>high\<close>.
\<close>

theorem cluster_density_counterexample:
  "get_cluster_suggestions (\<lambda>p. p) one_cluster three_reports 500 3 =
     Inr [\<lparr>cluster_id = 0, report_count = 3, avg_severity = low, bbox = (0, 0, 10, 10), members = [11, 12, 13]\<rparr>] \<and>
   severity_policy_spec 3 [[0, 0, 10, 10]] ((10 - 0) * (10 - 0)) = high"
  by (simp add: three_reports_suggestions severity_policy_spec_def union_area_def
      well_formed_def cuts_def covers_def count_level_def)

section \<open>Radius attachment and locked groups\<close>

lemma insort_key_map:
  "insort_key k (h x) (map h xs) = map h (insort_key (\<lambda>y. k (h y)) x xs)"
  by (induction xs) simp_all

lemma sort_key_map:
  "sort_key k (map h xs) = map h (sort_key (\<lambda>y. k (h y)) xs)"
  by (induction xs) (simp_all add: insort_key_map)

lemma sort_key_head_least:
  assumes "sort_key k xs = y # ys"
  shows "y \<in> set xs \<and> (\<forall>x \<in> set xs. k y \<le> k x)"
proof -
  have "sorted (map k (sort_key k xs))" by (rule sorted_sort_key)
  with assms have "\<forall>x \<in> set ys. k y \<le> k x" by simp
  moreover have "set xs = set (y # ys)" using assms set_sort [of k xs] by simp
  ultimately show ?thesis by auto
qed

lemma nearest_group_None:
  "(nearest_group distance groups lat lng radius = None) =
     (\<forall>g \<in> set groups. \<not> ST_DWithin distance (g_geom g) (lng, lat) radius)"
proof -
  let ?rows = "filter (\<lambda>g. ST_DWithin distance (g_geom g) (lng, lat) radius) groups"
  have "(nearest_group distance groups lat lng radius = None) = (sort_key (\<lambda>g. distance (the (g_geom g)) (lng, lat)) ?rows = [])"
    by (simp add: nearest_group_def Let_def split: list.splits)
  also have "\<dots> = (?rows = [])"
    using length_sort [of "\<lambda>g. distance (the (g_geom g)) (lng, lat)" ?rows] by (metis length_0_conv)
  also have "\<dots> = (\<forall>g \<in> set groups. \<not> ST_DWithin distance (g_geom g) (lng, lat) radius)"
    by (simp add: filter_empty_conv)
  finally show ?thesis .
qed

lemma nearest_group_Some:
  assumes "nearest_group distance groups lat lng radius = Some gid"
  shows "\<exists>g \<in> set groups. \<exists>c. g_id g = gid \<and> g_geom g = Some c \<and> distance c (lng, lat) \<le> radius \<and>
           (\<forall>g' \<in> set groups. \<forall>c'. g_geom g' = Some c' \<and> distance c' (lng, lat) \<le> radius
               \<longrightarrow> distance c (lng, lat) \<le> distance c' (lng, lat))"
proof -
  let ?rows = "filter (\<lambda>g. ST_DWithin distance (g_geom g) (lng, lat) radius) groups"
  let ?k = "\<lambda>g. distance (the (g_geom g)) (lng, lat)"
  from assms obtain row rest where s: "sort_key ?k ?rows = row # rest" and gid: "g_id row = gid"
    by (auto simp: nearest_group_def Let_def split: list.splits)
  from sort_key_head_least [OF s] have mem: "row \<in> set ?rows" and least: "\<forall>x \<in> set ?rows. ?k row \<le> ?k x"
    by simp_all
  from mem have g: "row \<in> set groups" and w: "ST_DWithin distance (g_geom row) (lng, lat) radius" by simp_all
  from w obtain c where c: "g_geom row = Some c" "distance c (lng, lat) \<le> radius"
    by (auto simp: ST_DWithin_def split: option.splits)
  have "\<forall>g' \<in> set groups. \<forall>c'. g_geom g' = Some c' \<and> distance c' (lng, lat) \<le> radius
               \<longrightarrow> distance c (lng, lat) \<le> distance c' (lng, lat)"
  proof (intro ballI allI impI)
    fix g' c' assume g': "g' \<in> set groups" and c': "g_geom g' = Some c' \<and> distance c' (lng, lat) \<le> radius"
    then have "g' \<in> set ?rows" by (simp add: ST_DWithin_def)
    with least have "?k row \<le> ?k g'" by blast
    with c c' show "distance c (lng, lat) \<le> distance c' (lng, lat)" by simp
  qed
  with g gid c show ?thesis by blast
qed


lemma find_map_update:
  assumes "find (\<lambda>r. r_id r = rid) rs = Some r" and "r_id (f r) = rid"
  shows "find (\<lambda>r. r_id r = rid) (map (\<lambda>r. if r_id r = rid then f r else r) rs) = Some (f r)"
  using assms by (induction rs) (auto split: if_splits)

lemma assign_effect:
  "(nearest_group distance (litter_groups d) lat lng radius = None \<longrightarrow>
      assign_to_nearest_group distance d rid lat lng radius = d) \<and>
   (\<forall>gid r. nearest_group distance (litter_groups d) lat lng radius = Some gid \<and> get_report d rid = Some r \<longrightarrow>
      get_report (assign_to_nearest_group distance d rid lat lng radius) rid
        = Some (r\<lparr>r_group_id := Some gid, r_is_grouped := True\<rparr>))"
proof (intro conjI impI allI)
  assume "nearest_group distance (litter_groups d) lat lng radius = None"
  then show "assign_to_nearest_group distance d rid lat lng radius = d"
    by (simp add: assign_to_nearest_group_def)
next
  fix gid r
  assume a: "nearest_group distance (litter_groups d) lat lng radius = Some gid \<and> get_report d rid = Some r"
  then have "r_id r = rid" by (auto simp: get_report_def dest: find_Some_iff [THEN iffD1])
  with a show "get_report (assign_to_nearest_group distance d rid lat lng radius) rid
        = Some (r\<lparr>r_group_id := Some gid, r_is_grouped := True\<rparr>)"
    by (simp add: assign_to_nearest_group_def update_report_def get_report_def find_map_update)
qed

lemma nearest_group_ignores_lock:
  "nearest_group distance (map (\<lambda>g. g\<lparr>g_is_locked := locked g\<rparr>) groups) lat lng radius
     = nearest_group distance groups lat lng radius"
proof -
  let ?h = "\<lambda>g. g\<lparr>g_is_locked := locked g\<rparr>"
  let ?P = "\<lambda>g. ST_DWithin distance (g_geom g) (lng, lat) radius"
  let ?k = "\<lambda>g. distance (the (g_geom g)) (lng, lat)"
  have "sort_key ?k (filter ?P (map ?h groups)) = map ?h (sort_key ?k (filter ?P groups))"
    by (simp add: filter_map comp_def sort_key_map)
  then show ?thesis
    by (simp add: nearest_group_def Let_def split: list.splits)
qed


lemma planar_distance_same: "planar_distance p p = 0"
  by (simp add: planar_distance_def)

lemma planar_distance_x: "planar_distance (a, b) (c, b) = \<bar>a - c\<bar>"
  by (simp add: planar_distance_def)

lemma nearest_group_None_centroid:
  "(nearest_group distance groups lat lng radius = None) =
     (\<forall>g \<in> set groups. \<forall>c. g_geom g = Some c \<longrightarrow> \<not> distance c (lng, lat) \<le> radius)"
  unfolding nearest_group_None
  by (auto simp: ST_DWithin_def split: option.splits)

lemma nearest_group_strictly_nearest:
  assumes g: "g \<in> set groups" and c: "g_geom g = Some c" and r: "distance c (lng, lat) \<le> radius"
    and least: "\<forall>g' \<in> set groups. \<forall>c'. g' \<noteq> g \<and> g_geom g' = Some c' \<and> distance c' (lng, lat) \<le> radius
                  \<longrightarrow> distance c (lng, lat) < distance c' (lng, lat)"
  shows "nearest_group distance groups lat lng radius = Some (g_id g)"
proof (cases "nearest_group distance groups lat lng radius")
  case None
  then have "\<forall>g \<in> set groups. \<forall>c. g_geom g = Some c \<longrightarrow> \<not> distance c (lng, lat) \<le> radius"
    by (simp only: nearest_group_None_centroid)
  with g c r show ?thesis by blast
next
  case (Some gid)
  from nearest_group_Some [OF Some] obtain g0 c0 where
    g0: "g0 \<in> set groups" "g_id g0 = gid" "g_geom g0 = Some c0" "distance c0 (lng, lat) \<le> radius"
    and min: "\<forall>g' \<in> set groups. \<forall>c'. g_geom g' = Some c' \<and> distance c' (lng, lat) \<le> radius
                 \<longrightarrow> distance c0 (lng, lat) \<le> distance c' (lng, lat)"
    by blast
  from min g c r have le: "distance c0 (lng, lat) \<le> distance c (lng, lat)" by blast
  have "g0 = g"
  proof (rule ccontr)
    assume "g0 \<noteq> g"
    with least g0 have "distance c (lng, lat) < distance c0 (lng, lat)" by blast
    with le show False by simp
  qed
  with Some g0(2) show ?thesis by simp
qed

text \<open>
  C4 (as the code has it, for radius attachment). Radius attachment does not read
  \<open>is_locked\<close>: whatever the flags of the groups are, the same group is selected. No
  group is selected exactly when no group has a centroid within the radius of the
  report's point; otherwise the selected group has a centroid, within the radius and
  at least as near as that of every other group within the radius, locked or not.
  In particular a locked group whose centroid is within the radius and strictly
  nearer than every other such centroid is the group selected.
\<close>

theorem attachment_ignores_lock:
  "nearest_group distance (map (\<lambda>g. g\<lparr>g_is_locked := locked g\<rparr>) groups) lat lng radius
     = nearest_group distance groups lat lng radius \<and>
   ((nearest_group distance groups lat lng radius = None) =
      (\<forall>g \<in> set groups. \<forall>c. g_geom g = Some c \<longrightarrow> \<not> distance c (lng, lat) \<le> radius)) \<and>
   (\<forall>gid. nearest_group distance groups lat lng radius = Some gid \<longrightarrow>
      (\<exists>g \<in> set groups. \<exists>c. g_id g = gid \<and> g_geom g = Some c \<and> distance c (lng, lat) \<le> radius \<and>
         (\<forall>g' \<in> set groups. \<forall>c'. g_geom g' = Some c' \<and> distance c' (lng, lat) \<le> radius
             \<longrightarrow> distance c (lng, lat) \<le> distance c' (lng, lat)))) \<and>
   (\<forall>g \<in> set groups. \<forall>c.
      g_is_locked g \<and> g_geom g = Some c \<and> distance c (lng, lat) \<le> radius \<and>
      (\<forall>g' \<in> set groups. \<forall>c'. g' \<noteq> g \<and> g_geom g' = Some c' \<and> distance c' (lng, lat) \<le> radius
          \<longrightarrow> distance c (lng, lat) < distance c' (lng, lat))
      \<longrightarrow> nearest_group distance groups lat lng radius = Some (g_id g))"
proof (intro conjI allI ballI impI)
  show "nearest_group distance (map (\<lambda>g. g\<lparr>g_is_locked := locked g\<rparr>) groups) lat lng radius
          = nearest_group distance groups lat lng radius"
    by (rule nearest_group_ignores_lock)
next
  show "(nearest_group distance groups lat lng radius = None) =
      (\<forall>g \<in> set groups. \<forall>c. g_geom g = Some c \<longrightarrow> \<not> distance c (lng, lat) \<le> radius)"
    by (rule nearest_group_None_centroid)
next
  fix gid assume "nearest_group distance groups lat lng radius = Some gid"
  then show "\<exists>g \<in> set groups. \<exists>c. g_id g = gid \<and> g_geom g = Some c \<and> distance c (lng, lat) \<le> radius \<and>
         (\<forall>g' \<in> set groups. \<forall>c'. g_geom g' = Some c' \<and> distance c' (lng, lat) \<le> radius
             \<longrightarrow> distance c (lng, lat) \<le> distance c' (lng, lat))"
    by (rule nearest_group_Some)
next
  fix g c
  assume g: "g \<in> set groups"
    and h: "g_is_locked g \<and> g_geom g = Some c \<and> distance c (lng, lat) \<le> radius \<and>
      (\<forall>g' \<in> set groups. \<forall>c'. g' \<noteq> g \<and> g_geom g' = Some c' \<and> distance c' (lng, lat) \<le> radius
          \<longrightarrow> distance c (lng, lat) < distance c' (lng, lat))"
  from h have "g_geom g = Some c" "distance c (lng, lat) \<le> radius"
    and "\<forall>g' \<in> set groups. \<forall>c'. g' \<noteq> g \<and> g_geom g' = Some c' \<and> distance c' (lng, lat) \<le> radius
          \<longrightarrow> distance c (lng, lat) < distance c' (lng, lat)"
    by blast+
  with g show "nearest_group distance groups lat lng radius = Some (g_id g)"
    by (rule nearest_group_strictly_nearest)
qed

theorem attachment_ignores_lock_witness:
  "group_L \<in> set [group_U, group_L] \<and> g_is_locked group_L \<and> g_geom group_L = Some (0, 0) \<and>
   planar_distance (0, 0) (0, 0) \<le> 500 \<and>
   nearest_group planar_distance [group_U, group_L] 0 0 500 = Some 21 \<and>
   nearest_group planar_distance
     (map (\<lambda>g. g\<lparr>g_is_locked := False\<rparr>) [group_U, group_L]) 0 0 500 = Some 21"
proof -
  have mem: "group_L \<in> set [group_U, group_L]" by simp
  have h: "g_is_locked group_L \<and> g_geom group_L = Some (0, 0) \<and> planar_distance (0, 0) (0, 0) \<le> 500 \<and>
      (\<forall>g' \<in> set [group_U, group_L]. \<forall>c'. g' \<noteq> group_L \<and> g_geom g' = Some c' \<and> planar_distance c' (0, 0) \<le> 500
          \<longrightarrow> planar_distance (0, 0) (0, 0) < planar_distance c' (0, 0))"
    by (auto simp: group_L_def group_U_def planar_distance_same planar_distance_x)
  note t = attachment_ignores_lock [of planar_distance "\<lambda>g. False" "[group_U, group_L]" 0 0 500]
  from t mem h have sel: "nearest_group planar_distance [group_U, group_L] 0 0 500 = Some (g_id group_L)"
    by blast
  from t have "nearest_group planar_distance (map (\<lambda>g. g\<lparr>g_is_locked := False\<rparr>) [group_U, group_L]) 0 0 500
     = nearest_group planar_distance [group_U, group_L] 0 0 500" by blast
  with sel h mem show ?thesis by (simp add: group_L_def)
qed

text \<open>
  C4 as the specification words it fails: a locked group at the new report's point
  is the one radius attachment selects, and a report that belongs to the locked
  group is among the rows fed to the clustering.
\<close>

theorem locked_group_counterexample:
  "g_is_locked locked_group \<and>
   nearest_group planar_distance (litter_groups locked_db) 12.9716 77.5946 500 = Some (g_id locked_group) \<and>
   r_group_id claimed_report = Some (g_id locked_group) \<and>
   cluster_rows (\<lambda>p. p) locked_db = [(r_id claimed_report, Some (77.5946, 12.9716), None)]"
  by (simp add: locked_group_def locked_db_def claimed_report_def example_report_def
      nearest_group_def ST_DWithin_def planar_distance_same cluster_rows_def)

lemma two_groups_nearest:
  "nearest_group planar_distance (litter_groups two_groups_db) 0 0 500 = Some 21"
  by (simp add: two_groups_db_def group_L_def group_U_def nearest_group_def ST_DWithin_def
      planar_distance_same planar_distance_x)

text \<open>
  C6 as the specification words it fails: with a locked group at the report's point
  and an unlocked group a thousandth of a degree away, both well within the radius,
  the report is attached to the locked group, not to the nearest unlocked one.
\<close>

theorem nearest_unlocked_counterexample:
  "g_is_locked group_L \<and> \<not> g_is_locked group_U \<and>
   planar_distance (the (g_geom group_U)) (0, 0) = 1 / 1000 \<and>
   nearest_group planar_distance (litter_groups two_groups_db) 0 0 500 = Some (g_id group_L) \<and>
   map r_group_id (litter_reports (assign_to_nearest_group planar_distance two_groups_db 32 0 0 500))
     = [Some (g_id group_L)]"
  by (simp add: two_groups_nearest assign_to_nearest_group_def update_report_def)
     (simp add: two_groups_db_def group_L_def group_U_def example_report_def planar_distance_x)

text \<open>
  C6 (as the code has it). Radius attachment leaves the store unchanged exactly when
  no group, locked or not, has a centroid within the radius of the report's point
  under the query's distance; otherwise it selects a group whose centroid is within
  the radius and at least as near as every other such group, and sets the report's
  \<open>group_id\<close> to it and \<open>is_grouped\<close> to true. The distance is the one \<open>ST_Distance\<close>
  computes for the stored geometries, whatever its unit.
\<close>

theorem radius_attachment_nearest:
  "(nearest_group distance (litter_groups d) lat lng radius = None \<longleftrightarrow>
      (\<forall>g \<in> set (litter_groups d). \<not> ST_DWithin distance (g_geom g) (lng, lat) radius)) \<and>
   (nearest_group distance (litter_groups d) lat lng radius = None \<longrightarrow>
      assign_to_nearest_group distance d rid lat lng radius = d) \<and>
   (\<forall>gid. nearest_group distance (litter_groups d) lat lng radius = Some gid \<longrightarrow>
      (\<exists>g \<in> set (litter_groups d). \<exists>c. g_id g = gid \<and> g_geom g = Some c \<and> distance c (lng, lat) \<le> radius \<and>
         (\<forall>g' \<in> set (litter_groups d). \<forall>c'. g_geom g' = Some c' \<and> distance c' (lng, lat) \<le> radius
             \<longrightarrow> distance c (lng, lat) \<le> distance c' (lng, lat)))) \<and>
   (\<forall>gid r. nearest_group distance (litter_groups d) lat lng radius = Some gid \<and> get_report d rid = Some r \<longrightarrow>
      get_report (assign_to_nearest_group distance d rid lat lng radius) rid
        = Some (r\<lparr>r_group_id := Some gid, r_is_grouped := True\<rparr>))"
  using nearest_group_None [of distance "litter_groups d" lat lng radius]
        nearest_group_Some [of distance "litter_groups d" lat lng radius]
        assign_effect [of distance d lat lng radius rid]
  by blast

theorem radius_attachment_nearest_witness:
  "get_report two_groups_db 32 = Some (example_report 32 (0, 0)) \<and>
   get_report (assign_to_nearest_group planar_distance two_groups_db 32 0 0 500) 32
     = Some ((example_report 32 (0, 0))\<lparr>r_group_id := Some 21, r_is_grouped := True\<rparr>)"
  using radius_attachment_nearest [of planar_distance two_groups_db 0 0 500 32] two_groups_nearest
  by (simp add: get_report_def two_groups_db_def example_report_def)

section \<open>The upload endpoint\<close>

lemma hamming_same: "hamming a a = 0"
  by (simp add: hamming_def)



lemma upload_rejects:
  assumes "image_phash e (file_bytes s) = Some ph" and "phash_dup_ids d (utcnow e) ph \<noteq> []"
  shows "upload_create_report_and_detect e d s
           = (HTTPException 409 (duplicate phash (phash_dup_ids d (utcnow e) ph)), d)"
  using assms by (simp add: upload_create_report_and_detect_def)

lemma upload_passes:
  assumes "image_phash e (file_bytes s) = Some ph" and "phash_dup_ids d (utcnow e) ph = []"
  shows "fst (upload_create_report_and_detect e d s) \<noteq> HTTPException 409 det"
  using assms
  by (simp add: upload_create_report_and_detect_def create_litter_report_def Let_def
      split: sum.splits prod.splits option.splits)

lemma upload_no_hash:
  assumes "image_phash e (file_bytes s) = None"
  shows "upload_create_report_and_detect e d s = (unhandled ''UnidentifiedImageError'', d)"
  using assms by (simp add: upload_create_report_and_detect_def)


lemma update_report_tables:
  "image_fingerprints (update_report rid f d) = image_fingerprints d"
  "uploads (update_report rid f d) = uploads d"
  "litter_groups (update_report rid f d) = litter_groups d"
  by (simp_all add: update_report_def)

lemma update_report_ids:
  assumes "\<And>r. r_id (f r) = r_id r"
  shows "map r_id (litter_reports (update_report rid f d)) = map r_id (litter_reports d)"
  using assms by (simp add: update_report_def comp_def)

lemma assign_tables:
  "image_fingerprints (assign_to_nearest_group distance d rid lat lng radius) = image_fingerprints d"
  "map r_id (litter_reports (assign_to_nearest_group distance d rid lat lng radius)) = map r_id (litter_reports d)"
  by (simp_all add: assign_to_nearest_group_def update_report_tables update_report_ids split: option.splits)

lemma create_litter_report_Some:
  assumes "create_litter_report e d uid up lat lng = (Some report, d2)"
  shows "r_id report = fresh_report_id e \<and> fresh_report_id e \<notin> set (map r_id (litter_reports d)) \<and>
         image_fingerprints d2 = image_fingerprints d \<and>
         map r_id (litter_reports d2) = map r_id (litter_reports d) @ [fresh_report_id e]"
proof (cases "fresh_report_id e \<in> set (map r_id (litter_reports d))")
  case True
  with assms show ?thesis by (simp add: create_litter_report_def)
next
  case False
  with assms show ?thesis
    unfolding create_litter_report_def Let_def
    by (auto simp: assign_tables update_report_tables update_report_ids)
qed

lemma create_upload_Inr:
  assumes "create_upload_with_file e d s = Inr (upload, d1)"
  shows "image_fingerprints d1 = image_fingerprints d \<and> litter_reports d1 = litter_reports d"
  using assms by (auto simp: create_upload_with_file_def Let_def split: if_splits)

lemma upload_accepted:
  assumes "upload_create_report_and_detect e d s = (JSONResponse code rid, d')"
  shows "code = 201 \<and> rid = fresh_report_id e \<and>
         (\<exists>ph. image_phash e (file_bytes s) = Some ph \<and>
               image_fingerprints d' = image_fingerprints d @ [\<lparr>fp_report_id = rid, fp_phash = ph, fp_embedding = []\<rparr>]) \<and>
         rid \<notin> set (map fp_report_id (image_fingerprints d)) \<and>
         rid \<notin> set (map r_id (litter_reports d)) \<and>
         map r_id (litter_reports d') = map r_id (litter_reports d) @ [rid]"
proof -
  from assms obtain ph where ph: "image_phash e (file_bytes s) = Some ph"
    by (cases "image_phash e (file_bytes s)") (simp_all add: upload_create_report_and_detect_def)
  from assms ph have nodup: "phash_dup_ids d (utcnow e) ph = []"
    by (cases "phash_dup_ids d (utcnow e) ph = []") (simp_all add: upload_create_report_and_detect_def)
  from assms ph nodup obtain upload d1 where up: "create_upload_with_file e d s = Inr (upload, d1)"
    by (cases "create_upload_with_file e d s") (auto simp: upload_create_report_and_detect_def)
  from assms ph nodup up obtain lat lng where ll: "latitude s = Some lat" "longitude s = Some lng"
    by (cases "latitude s"; cases "longitude s") (simp_all add: upload_create_report_and_detect_def)
  obtain ro d2 where cr: "create_litter_report e d1 (user_id s) (u_id upload) lat lng = (ro, d2)"
    by (cases "create_litter_report e d1 (user_id s) (u_id upload) lat lng") blast
  from assms ph nodup up ll cr obtain report where ro: "ro = Some report"
    by (cases ro) (simp_all add: upload_create_report_and_detect_def)
  note cr' = cr [unfolded ro]
  from create_litter_report_Some [OF cr'] create_upload_Inr [OF up]
  have facts: "r_id report = fresh_report_id e" "image_fingerprints d2 = image_fingerprints d"
    "map r_id (litter_reports d2) = map r_id (litter_reports d) @ [fresh_report_id e]"
    "fresh_report_id e \<notin> set (map r_id (litter_reports d))"
    by simp_all
  from assms ph nodup up ll cr' have fresh: "r_id report \<notin> set (map fp_report_id (image_fingerprints d2))"
    by (cases "r_id report \<in> set (map fp_report_id (image_fingerprints d2))")
       (simp_all add: upload_create_report_and_detect_def)
  from assms ph nodup up ll cr' fresh
  have res: "code = 201" "rid = r_id report"
    "d' = update_report (r_id report) (\<lambda>r. r\<lparr>r_geom := Some (lng, lat)\<rparr>)
            (d2\<lparr>image_fingerprints := image_fingerprints d2 @ [\<lparr>fp_report_id = r_id report, fp_phash = ph, fp_embedding = []\<rparr>]\<rparr>)"
    by (auto simp add: upload_create_report_and_detect_def Let_def)
  have "image_fingerprints d' = image_fingerprints d @ [\<lparr>fp_report_id = rid, fp_phash = ph, fp_embedding = []\<rparr>]"
    unfolding res by (simp add: update_report_tables facts)
  moreover have "map r_id (litter_reports d') = map r_id (litter_reports d) @ [rid]"
    unfolding res(3) by (simp add: update_report_ids facts res(2))
  moreover have "rid \<notin> set (map fp_report_id (image_fingerprints d))"
    using fresh facts res(2) by simp
  ultimately show ?thesis using ph res(1,2) facts(1,4) by simp
qed


lemma fingerprinted_dups: "phash_dup_ids fingerprinted_db (seconds 600) 0 = [41]"
  by (simp add: phash_dup_ids_def recent_fingerprints_def fingerprinted_db_def example_report_def
      hamming_same days_def seconds_def)

lemma fingerprinted_rejected:
  "upload_create_report_and_detect (example_env 0) fingerprinted_db example_submission
     = (HTTPException 409 (duplicate phash [41]), fingerprinted_db)"
  using upload_rejects [of "example_env 0" example_submission 0 fingerprinted_db] fingerprinted_dups
  by (simp add: example_env_def)

lemma nearby_accepted:
  "fst (upload_create_report_and_detect (example_env 0) nearby_db example_submission) = JSONResponse 201 52 \<and>
   image_fingerprints (snd (upload_create_report_and_detect (example_env 0) nearby_db example_submission))
     = [\<lparr>fp_report_id = 52, fp_phash = 0, fp_embedding = []\<rparr>]"
  by (simp add: upload_create_report_and_detect_def example_env_def nearby_db_def example_submission_def
      phash_dup_ids_def recent_fingerprints_def create_upload_with_file_def create_litter_report_def
      assign_to_nearest_group_def nearest_group_def update_report_def example_report_def Let_def)



text \<open>
  C10. When the endpoint answers 409, the store it leaves is the store it found: no
  Upload, LitterReport or ImageFingerprint row has been written. (A 409 is always
  the perceptual-hash rejection.)
\<close>

theorem phash_rejection_no_write:
  assumes "fst (upload_create_report_and_detect e d s) = HTTPException 409 det"
  shows "snd (upload_create_report_and_detect e d s) = d \<and>
         (\<exists>ids. det = duplicate phash ids \<and> ids \<noteq> [])"
proof (cases "image_phash e (file_bytes s)")
  case None
  with assms show ?thesis by (simp add: upload_no_hash)
next
  case (Some ph)
  show ?thesis
  proof (cases "phash_dup_ids d (utcnow e) ph = []")
    case True
    from upload_passes [OF Some True, where det = det] assms show ?thesis by simp
  next
    case False
    from upload_rejects [OF Some False] assms False show ?thesis by auto
  qed
qed

theorem phash_rejection_no_write_witness:
  "fst (upload_create_report_and_detect (example_env 0) fingerprinted_db example_submission)
     = HTTPException 409 (duplicate phash [41]) \<and>
   snd (upload_create_report_and_detect (example_env 0) fingerprinted_db example_submission)
     = fingerprinted_db"
proof -
  have h: "fst (upload_create_report_and_detect (example_env 0) fingerprinted_db example_submission)
     = HTTPException 409 (duplicate phash [41])"
    by (simp add: fingerprinted_rejected)
  from phash_rejection_no_write [OF h] h show ?thesis by simp
qed


lemma upload_passes_duplicate:
  assumes "image_phash e (file_bytes s) = Some ph" and "phash_dup_ids d (utcnow e) ph = []"
  shows "fst (upload_create_report_and_detect e d s) \<noteq> HTTPException code (duplicate r ids)"
  using assms
  by (simp add: upload_create_report_and_detect_def create_litter_report_def Let_def
      split: sum.splits prod.splits option.splits)

lemma upload_duplicate_detail:
  assumes "fst (upload_create_report_and_detect e d s) = HTTPException code (duplicate r ids)"
  shows "code = 409 \<and> r = phash \<and> ids \<noteq> []"
proof (cases "image_phash e (file_bytes s)")
  case None
  with assms show ?thesis by (simp add: upload_no_hash)
next
  case (Some ph)
  show ?thesis
  proof (cases "phash_dup_ids d (utcnow e) ph = []")
    case True
    from upload_passes_duplicate [OF Some True, where code = code and r = r and ids = ids] assms
    show ?thesis by simp
  next
    case False
    from upload_rejects [OF Some False] assms False show ?thesis by auto
  qed
qed

lemma set_find_spatio_temporal:
  "(rid \<in> set (find_spatio_temporal gd d lat lng ts radius_m window_s)) =
     (\<exists>r \<in> set (litter_reports d). r_id r = rid \<and>
         ts - seconds window_s \<le> r_created_at r \<and> r_created_at r \<le> ts + seconds window_s \<and>
         (\<exists>g. r_geom r = Some g \<and> gd g (lng, lat) \<le> radius_m))"
  by (auto simp: find_spatio_temporal_def Let_def ST_DWithin_def split: option.splits)

lemma nearby_found:
  "find_spatio_temporal planar_distance nearby_db 12.9716 77.5946 (seconds 600) 50 (30 * 60) = [41]"
  by (simp add: find_spatio_temporal_def nearby_db_def example_report_def ST_DWithin_def
      planar_distance_same seconds_def)

text \<open>
  C1 (as the code has it). The endpoint does not call \<open>find_spatio_temporal\<close>: a
  duplicate rejection always has code 409 and reason \<open>phash\<close>, never
  \<open>spatio-temporal\<close>. \<open>find_spatio_temporal\<close> itself returns the ids of the reports
  created within \<open>window_s\<close> seconds of \<open>ts\<close> whose position is within \<open>radius_m\<close> of
  the point.
\<close>

theorem upload_dedup_is_phash_only:
  "(\<forall>code r ids. fst (upload_create_report_and_detect e d s) = HTTPException code (duplicate r ids)
       \<longrightarrow> code = 409 \<and> r = phash \<and> r \<noteq> spatio_temporal) \<and>
   ((rid \<in> set (find_spatio_temporal gd d lat lng ts radius_m window_s)) =
     (\<exists>r \<in> set (litter_reports d). r_id r = rid \<and>
         ts - seconds window_s \<le> r_created_at r \<and> r_created_at r \<le> ts + seconds window_s \<and>
         (\<exists>g. r_geom r = Some g \<and> gd g (lng, lat) \<le> radius_m)))"
  using upload_duplicate_detail [of e d s] set_find_spatio_temporal [of rid gd d lat lng ts radius_m window_s]
  by auto

lemma fingerprinted_found:
  "find_spatio_temporal planar_distance fingerprinted_db 12.9716 77.5946 (seconds 600) 50 (30 * 60) = [41]"
  by (simp add: find_spatio_temporal_def fingerprinted_db_def example_report_def ST_DWithin_def
      planar_distance_same seconds_def)

theorem upload_dedup_is_phash_only_witness:
  "fst (upload_create_report_and_detect (example_env 0) fingerprinted_db example_submission)
     = HTTPException 409 (duplicate phash [41]) \<and>
   41 \<in> set (find_spatio_temporal planar_distance fingerprinted_db 12.9716 77.5946 (seconds 600) 50 (30 * 60)) \<and>
   (\<exists>r \<in> set (litter_reports fingerprinted_db). r_id r = 41 \<and>
         seconds 600 - seconds (30 * 60) \<le> r_created_at r \<and> r_created_at r \<le> seconds 600 + seconds (30 * 60) \<and>
         (\<exists>g. r_geom r = Some g \<and> planar_distance g (77.5946, 12.9716) \<le> 50))"
  using upload_dedup_is_phash_only [where e = "example_env 0" and d = fingerprinted_db
          and s = example_submission and rid = 41 and gd = planar_distance and lat = "12.9716"
          and lng = "77.5946" and ts = "seconds 600" and radius_m = 50 and window_s = "30 * 60"]
        fingerprinted_rejected fingerprinted_found
  by simp

text \<open>
  C1 as the specification words it fails: a report created ten minutes earlier at
  the very point of the submission (at distance 0 under any distance) is found by
  \<open>find_spatio_temporal\<close> with the 50 m radius and the 30 minute window, and the
  submission, whose image matches no stored hash, is accepted with 201.
\<close>

theorem spatio_temporal_counterexample:
  "latitude example_submission = Some 12.9716 \<and> longitude example_submission = Some 77.5946 \<and>
   find_spatio_temporal planar_distance nearby_db 12.9716 77.5946 (utcnow (example_env 0))
       SPATIAL_RADIUS_M TEMPORAL_WINDOW_S = [41] \<and>
   fst (upload_create_report_and_detect (example_env 0) nearby_db example_submission) = JSONResponse 201 52"
  using nearby_found nearby_accepted
  by (simp add: example_submission_def example_env_def SPATIAL_RADIUS_M_def TEMPORAL_WINDOW_S_def)

text \<open>
  C3 (as the code has it). When the endpoint answers with a JSON response for report
  \<open>rid\<close>, it has appended exactly one fingerprint row: the one keyed by \<open>rid\<close>, holding
  the image's perceptual hash and the empty byte string as embedding. No other row
  of the table carries \<open>rid\<close>, and \<open>rid\<close> is the id of a report that is new in the store.
\<close>

theorem accepted_fingerprint:
  assumes "upload_create_report_and_detect e d s = (JSONResponse code rid, d')"
  shows "(\<exists>ph. image_phash e (file_bytes s) = Some ph \<and>
               image_fingerprints d' = image_fingerprints d @ [\<lparr>fp_report_id = rid, fp_phash = ph, fp_embedding = []\<rparr>]) \<and>
         length (filter (\<lambda>fp. fp_report_id fp = rid) (image_fingerprints d')) = 1 \<and>
         rid \<in> set (map r_id (litter_reports d')) \<and> rid \<notin> set (map r_id (litter_reports d))"
proof -
  from upload_accepted [OF assms] obtain ph where
    ph: "image_phash e (file_bytes s) = Some ph"
    and fps: "image_fingerprints d' = image_fingerprints d @ [\<lparr>fp_report_id = rid, fp_phash = ph, fp_embedding = []\<rparr>]"
    and fresh: "rid \<notin> set (map fp_report_id (image_fingerprints d))"
    and new: "rid \<notin> set (map r_id (litter_reports d))"
    and ids: "map r_id (litter_reports d') = map r_id (litter_reports d) @ [rid]"
    by blast
  from fresh have "filter (\<lambda>fp. fp_report_id fp = rid) (image_fingerprints d) = []"
    by (auto simp: filter_empty_conv)
  then have "length (filter (\<lambda>fp. fp_report_id fp = rid) (image_fingerprints d')) = 1"
    by (simp add: fps)
  moreover have "rid \<in> set (map r_id (litter_reports d'))" unfolding ids by simp
  ultimately show ?thesis using ph fps new by blast
qed

theorem accepted_fingerprint_witness:
  "fst (upload_create_report_and_detect (example_env 0) nearby_db example_submission) = JSONResponse 201 52 \<and>
   length (filter (\<lambda>fp. fp_report_id fp = 52)
     (image_fingerprints (snd (upload_create_report_and_detect (example_env 0) nearby_db example_submission)))) = 1"
  using accepted_fingerprint [of "example_env 0" nearby_db example_submission 201 52
          "snd (upload_create_report_and_detect (example_env 0) nearby_db example_submission)"]
        nearby_accepted
  by (simp add: prod_eq_iff)

text \<open>
  C3 as the specification words it fails: the fingerprint of an accepted submission
  stores \<open>b''\<close>, which holds no component whatever the decoding of four bytes is, so
  the norm of the stored vector is 0, not 1.
\<close>

theorem empty_embedding_counterexample:
  "fst (upload_create_report_and_detect (example_env 0) nearby_db example_submission) = JSONResponse 201 52 \<and>
   map fp_embedding (image_fingerprints (snd (upload_create_report_and_detect (example_env 0) nearby_db example_submission)))
     = [[]] \<and>
   l2_norm (embedding_vector (\<lambda>b. 1) []) = 0"
  using nearby_accepted by (simp add: l2_norm_def embedding_vector_def)

section \<open>Terminal status after a failed detection\<close>

lemma not_found_fetch:
  "fetch_image_bytes not_found_env ''/uploads/a.jpg''
     = Inl (502, status_message ''Failed to download image, status='' 404)"
  by (simp add: fetch_image_bytes_def not_found_env_def)

text \<open>
  C2 fails on the code, against the function's own docstring: when the image host
  answers 404, \<open>fetch_image_bytes\<close> raises \<open>HTTPException(502)\<close>, the handler for
  \<open>HTTPException\<close> only rolls back and re-raises, and the report is left \<open>pending\<close>.
\<close>

theorem download_failure_leaves_pending:
  "create_litter_detection not_found_env pending_db 61
     = (Inl (502, status_message ''Failed to download image, status='' 404), pending_db) \<and>
   map r_status (litter_reports pending_db) = [pending]"
  by (simp add: create_litter_detection_def not_found_fetch get_report_def get_upload_def
      pending_db_def example_report_def)

text \<open>
  The other failures are handled as the docstring says: a detector exception leaves
  \<open>error\<close>, an empty detection leaves \<open>no-litter\<close>.
\<close>

lemma bad_image_sets_error:
  "map r_status (litter_reports (snd (create_litter_detection bad_image_env pending_db 61))) = [error]"
  by (simp add: create_litter_detection_def fetch_image_bytes_def bad_image_env_def not_found_env_def
      get_report_def get_upload_def pending_db_def example_report_def update_report_def)

lemma detection_failure_status:
  assumes "get_report d rid = Some report"
    and "create_litter_detection e d rid = (Inl exn, d')"
    and "get_upload d (r_upload_id report) = Some upload" and "u_file_url upload \<noteq> []"
    and "fetch_image_bytes e (u_file_url upload) = Inr img"
  shows "\<exists>r'. get_report d' rid = Some r' \<and> (r_status r' = error \<or> r_status r' = no_litter)"
proof -
  from assms(1) have rid: "r_id report = rid"
    by (auto simp: get_report_def dest: find_Some_iff [THEN iffD1])
  show ?thesis
  proof (cases "run_detection_on_image_bytes e img")
    case (Inl msg)
    with assms have "d' = update_report rid (\<lambda>r. r\<lparr>r_status := error, r_detection_results := Some (results_error msg)\<rparr>) d"
      by (auto simp: create_litter_detection_def)
    with assms(1) rid show ?thesis
      by (simp add: get_report_def update_report_def find_map_update)
  next
    case (Inr res)
    with assms have "total_litter_count res = 0"
      by (auto simp: create_litter_detection_def Let_def split: if_splits)
    with assms Inr have "d' = update_report rid (\<lambda>r. r\<lparr>r_status := no_litter, r_is_detected := False,
                                       r_detection_results := Some (results_no_litter res)\<rparr>) d"
      by (auto simp: create_litter_detection_def)
    with assms(1) rid show ?thesis
      by (simp add: get_report_def update_report_def find_map_update)
  qed
qed

end
